theory Spec2Isabelle
  imports Main
begin

section \<open>The declarations of \<^verbatim>\<open>sqlalchemy/db/models.py\<close>\<close>

text \<open>
  The module holds three class statements and nothing else: the declarative base
  \<^verbatim>\<open>Base\<close> and the two mapped classes \<^verbatim>\<open>User\<close> and \<^verbatim>\<open>Address\<close>. No function is
  defined and no statement is executed beyond the class bodies, so the embedding is
  the data of those class bodies, attribute by attribute, in the order of the source,
  together with the reading of a class body as a table: the column type, the
  nullability and the foreign key that each \<^verbatim>\<open>mapped_column(...)\<close> attribute stands for.
\<close>

subsection \<open>Annotations and right-hand sides\<close>

text \<open>
  The annotation of an attribute is \<^verbatim>\<open>Mapped[int]\<close>, \<^verbatim>\<open>Mapped[str]\<close>,
  \<^verbatim>\<open>Mapped[Optional[str]]\<close>, \<^verbatim>\<open>Mapped[List["Address"]]\<close> or \<^verbatim>\<open>Mapped["User"]\<close>.
\<close>

datatype py_type = PyInt | PyStr

datatype annotation =
    Mapped py_type
  | MappedOptional py_type
  | MappedList string
  | MappedClass string

text \<open>\<^verbatim>\<open>String(30)\<close> carries its length; a \<^verbatim>\<open>String\<close> without one has none.\<close>

datatype sql_type = Integer | String "nat option"

text \<open>
  The positional arguments the source passes to \<^verbatim>\<open>mapped_column\<close>: a type
  (\<^verbatim>\<open>String(30)\<close>) or a \<^verbatim>\<open>ForeignKey("table.column")\<close>, whose argument is kept as the
  string it is in the source.
\<close>

datatype column_arg = TypeArg sql_type | ForeignKey string

record mapped_column_call =
  positional :: "column_arg list"
  primary_key :: bool

record relationship_call =
  back_populates :: string
  cascade :: "string option"

datatype attr_value =
    mapped_column mapped_column_call
  | relationship relationship_call

record attribute =
  attr_name :: string
  attr_annotation :: annotation
  attr_value :: attr_value

record class_decl =
  class_name :: string
  class_base :: string
  tablename :: "string option"
  attributes :: "attribute list"

subsection \<open>The three classes\<close>

definition Base :: class_decl where
  "Base = \<lparr>class_name = ''Base'', class_base = ''DeclarativeBase'',
           tablename = None, attributes = []\<rparr>"

definition User :: class_decl where
  "User = \<lparr>class_name = ''User'', class_base = ''Base'',
     tablename = Some ''user_account'',
     attributes = [
       \<lparr>attr_name = ''id'', attr_annotation = Mapped PyInt,
        attr_value = mapped_column \<lparr>positional = [], primary_key = True\<rparr>\<rparr>,
       \<lparr>attr_name = ''name'', attr_annotation = Mapped PyStr,
        attr_value = mapped_column
          \<lparr>positional = [TypeArg (String (Some 30))], primary_key = False\<rparr>\<rparr>,
       \<lparr>attr_name = ''fullname'', attr_annotation = MappedOptional PyStr,
        attr_value = mapped_column
          \<lparr>positional = [TypeArg (String (Some 30))], primary_key = False\<rparr>\<rparr>,
       \<lparr>attr_name = ''nickname'', attr_annotation = MappedOptional PyStr,
        attr_value = mapped_column
          \<lparr>positional = [TypeArg (String (Some 30))], primary_key = False\<rparr>\<rparr>,
       \<lparr>attr_name = ''addresses'', attr_annotation = MappedList ''Address'',
        attr_value = relationship
          \<lparr>back_populates = ''user'', cascade = Some ''all, delete-orphan''\<rparr>\<rparr>]\<rparr>"

definition Address :: class_decl where
  "Address = \<lparr>class_name = ''Address'', class_base = ''Base'',
     tablename = Some ''address'',
     attributes = [
       \<lparr>attr_name = ''id'', attr_annotation = Mapped PyInt,
        attr_value = mapped_column \<lparr>positional = [], primary_key = True\<rparr>\<rparr>,
       \<lparr>attr_name = ''email_address'', attr_annotation = Mapped PyStr,
        attr_value = mapped_column
          \<lparr>positional = [TypeArg (String (Some 30))], primary_key = False\<rparr>\<rparr>,
       \<lparr>attr_name = ''neighborhood'', attr_annotation = Mapped PyStr,
        attr_value = mapped_column
          \<lparr>positional = [TypeArg (String (Some 30))], primary_key = False\<rparr>\<rparr>,
       \<lparr>attr_name = ''user_id'', attr_annotation = Mapped PyInt,
        attr_value = mapped_column
          \<lparr>positional = [ForeignKey ''user_account.id''], primary_key = False\<rparr>\<rparr>,
       \<lparr>attr_name = ''user'', attr_annotation = MappedClass ''User'',
        attr_value = relationship
          \<lparr>back_populates = ''addresses'', cascade = None\<rparr>\<rparr>]\<rparr>"

definition models :: "class_decl list" where
  "models = [Base, User, Address]"

section \<open>From class bodies to tables\<close>

record column =
  column_name :: string
  column_type :: sql_type
  nullable :: bool
  is_primary_key :: bool
  references :: "(string \<times> string) option"

record table =
  table_name :: string
  columns :: "column list"

text \<open>
  The type of a column is the type given to \<^verbatim>\<open>mapped_column\<close> when there is one, and
  otherwise the one the annotation stands for: \<^verbatim>\<open>int\<close> is \<^verbatim>\<open>Integer\<close>, \<^verbatim>\<open>str\<close> is a
  \<^verbatim>\<open>String\<close> without a length. An annotation that names a class is no column type.
\<close>

fun explicit_type :: "column_arg list \<Rightarrow> sql_type option" where
  "explicit_type [] = None"
| "explicit_type (TypeArg t # as) = Some t"
| "explicit_type (ForeignKey s # as) = explicit_type as"

fun type_of_py :: "py_type \<Rightarrow> sql_type" where
  "type_of_py PyInt = Integer"
| "type_of_py PyStr = String None"

fun annotated_type :: "annotation \<Rightarrow> sql_type option" where
  "annotated_type (Mapped p) = Some (type_of_py p)"
| "annotated_type (MappedOptional p) = Some (type_of_py p)"
| "annotated_type (MappedList c) = None"
| "annotated_type (MappedClass c) = None"

definition sql_type_of :: "annotation \<Rightarrow> column_arg list \<Rightarrow> sql_type option" where
  "sql_type_of ann as =
     (case explicit_type as of Some t \<Rightarrow> Some t | None \<Rightarrow> annotated_type ann)"

text \<open>
  A column is nullable when its annotation is \<^verbatim>\<open>Optional[...]\<close> and it is not part of
  the primary key (the source passes no \<^verbatim>\<open>nullable=\<close> of its own).
\<close>

fun is_optional :: "annotation \<Rightarrow> bool" where
  "is_optional (MappedOptional p) = True"
| "is_optional ann = False"

definition nullable_of :: "annotation \<Rightarrow> bool \<Rightarrow> bool" where
  "nullable_of ann pk = (\<not> pk \<and> is_optional ann)"

text \<open>
  The argument of \<^verbatim>\<open>ForeignKey\<close> is \<^verbatim>\<open>"table.column"\<close>: the column is what follows
  the last dot, the table what precedes it. A string without a dot names no column.
\<close>

definition split_colspec :: "string \<Rightarrow> (string \<times> string) option" where
  "split_colspec s =
     (if CHR ''.'' \<in> set s
      then let r = rev s in
        Some (rev (drop 1 (dropWhile (\<lambda>c. c \<noteq> CHR ''.'') r)),
              rev (takeWhile (\<lambda>c. c \<noteq> CHR ''.'') r))
      else None)"

fun foreign_key :: "column_arg list \<Rightarrow> (string \<times> string) option" where
  "foreign_key [] = None"
| "foreign_key (ForeignKey s # as) = split_colspec s"
| "foreign_key (TypeArg t # as) = foreign_key as"

text \<open>
  A \<^verbatim>\<open>mapped_column\<close> attribute is a column named after the attribute; a
  \<^verbatim>\<open>relationship\<close> attribute is none.
\<close>

definition column_of :: "attribute \<Rightarrow> column option" where
  "column_of a =
     (case attr_value a of
        relationship r \<Rightarrow> None
      | mapped_column m \<Rightarrow>
          (case sql_type_of (attr_annotation a) (positional m) of
             None \<Rightarrow> None
           | Some t \<Rightarrow>
               Some \<lparr>column_name = attr_name a, column_type = t,
                     nullable = nullable_of (attr_annotation a) (primary_key m),
                     is_primary_key = primary_key m,
                     references = foreign_key (positional m)\<rparr>))"

text \<open>
  A class with a \<^verbatim>\<open>__tablename__\<close> is a table of that name; \<^verbatim>\<open>Base\<close>, which has
  none, is not.
\<close>

definition table_of :: "class_decl \<Rightarrow> table option" where
  "table_of c =
     (case tablename c of
        None \<Rightarrow> None
      | Some n \<Rightarrow>
          Some \<lparr>table_name = n, columns = List.map_filter column_of (attributes c)\<rparr>)"

definition metadata_tables :: "class_decl list \<Rightarrow> table list" where
  "metadata_tables cs = List.map_filter table_of cs"

section \<open>The relationship pair\<close>

text \<open>
  \<^verbatim>\<open>User.addresses\<close> and \<^verbatim>\<open>Address.user\<close> are the two \<^verbatim>\<open>relationship(...)\<close>
  attributes. The class at the other end is the one the annotation names, and
  \<^verbatim>\<open>back_populates\<close> names the attribute of that class that is the other end.
\<close>

fun relationship_target :: "annotation \<Rightarrow> string option" where
  "relationship_target (MappedList c) = Some c"
| "relationship_target (MappedClass c) = Some c"
| "relationship_target ann = None"

fun relationship_of :: "attribute \<Rightarrow> relationship_call option" where
  "relationship_of a =
     (case attr_value a of relationship r \<Rightarrow> Some r | mapped_column m \<Rightarrow> None)"

definition find_class :: "class_decl list \<Rightarrow> string \<Rightarrow> class_decl option" where
  "find_class cs n = find (\<lambda>c. class_name c = n) cs"

definition find_attribute :: "class_decl \<Rightarrow> string \<Rightarrow> attribute option" where
  "find_attribute c n = find (\<lambda>a. attr_name a = n) (attributes c)"

text \<open>
  The two ends name each other: the attribute \<open>a\<close> of class \<open>c\<close> is a relationship
  to a class of the module, the attribute its \<^verbatim>\<open>back_populates\<close> names there is a
  relationship too, and that one leads back to \<open>c\<close> and names \<open>a\<close>.
\<close>

definition back_populates_each_other :: "class_decl list \<Rightarrow> class_decl \<Rightarrow> attribute \<Rightarrow> bool" where
  "back_populates_each_other cs c a =
     (case (relationship_of a, relationship_target (attr_annotation a)) of
        (Some r, Some tn) \<Rightarrow>
          (case find_class cs tn of
             None \<Rightarrow> False
           | Some t \<Rightarrow>
               (case find_attribute t (back_populates r) of
                  None \<Rightarrow> False
                | Some b \<Rightarrow>
                    (case relationship_of b of
                       None \<Rightarrow> False
                     | Some rb \<Rightarrow>
                         back_populates rb = attr_name a \<and>
                         relationship_target (attr_annotation b) = Some (class_name c))))
      | _ \<Rightarrow> False)"

text \<open>
  The \<^verbatim>\<open>cascade\<close> argument is a comma-separated list of option names, with blanks
  around the commas; \<^verbatim>\<open>all\<close> abbreviates \<^verbatim>\<open>save-update\<close>, \<^verbatim>\<open>merge\<close>,
  \<^verbatim>\<open>refresh-expire\<close>, \<^verbatim>\<open>expunge\<close> and \<^verbatim>\<open>delete\<close> (\<^verbatim>\<open>delete-orphan\<close> is not part of
  it, which is why the source writes it out), and a relationship without the argument
  has \<^verbatim>\<open>save-update\<close> and \<^verbatim>\<open>merge\<close>.
\<close>

fun split_on :: "char \<Rightarrow> string \<Rightarrow> string list" where
  "split_on d [] = [[]]"
| "split_on d (c # cs) =
     (if c = d then [] # split_on d cs
      else (case split_on d cs of [] \<Rightarrow> [[c]] | w # ws \<Rightarrow> (c # w) # ws))"

definition strip :: "string \<Rightarrow> string" where
  "strip s = rev (dropWhile (\<lambda>c. c = CHR '' '') (rev (dropWhile (\<lambda>c. c = CHR '' '') s)))"

definition cascade_names :: "string \<Rightarrow> string list" where
  "cascade_names s = map strip (split_on CHR '','' s)"

definition all_cascades :: "string list" where
  "all_cascades = [''save-update'', ''merge'', ''refresh-expire'', ''expunge'', ''delete'']"

definition cascade_options :: "string option \<Rightarrow> string set" where
  "cascade_options arg =
     (case arg of
        None \<Rightarrow> {''save-update'', ''merge''}
      | Some s \<Rightarrow>
          (let ns = cascade_names s
           in set (filter (\<lambda>n. n \<noteq> ''all'') ns) \<union>
              (if ''all'' \<in> set ns then set all_cascades else {})))"

section \<open>The shape of the schema\<close>

lemma split_colspec_user_account_id:
  "split_colspec ''user_account.id'' = Some (''user_account'', ''id'')"
  by (simp add: split_colspec_def)

lemma table_of_Base: "table_of Base = None"
  by (simp add: table_of_def Base_def)

lemma table_of_User:
  "table_of User = Some
     \<lparr>table_name = ''user_account'', columns = [
        \<lparr>column_name = ''id'', column_type = Integer, nullable = False,
         is_primary_key = True, references = None\<rparr>,
        \<lparr>column_name = ''name'', column_type = String (Some 30), nullable = False,
         is_primary_key = False, references = None\<rparr>,
        \<lparr>column_name = ''fullname'', column_type = String (Some 30), nullable = True,
         is_primary_key = False, references = None\<rparr>,
        \<lparr>column_name = ''nickname'', column_type = String (Some 30), nullable = True,
         is_primary_key = False, references = None\<rparr>]\<rparr>"
  by (simp add: table_of_def User_def column_of_def
      sql_type_of_def nullable_of_def)

lemma table_of_Address:
  "table_of Address = Some
     \<lparr>table_name = ''address'', columns = [
        \<lparr>column_name = ''id'', column_type = Integer, nullable = False,
         is_primary_key = True, references = None\<rparr>,
        \<lparr>column_name = ''email_address'', column_type = String (Some 30),
         nullable = False, is_primary_key = False, references = None\<rparr>,
        \<lparr>column_name = ''neighborhood'', column_type = String (Some 30),
         nullable = False, is_primary_key = False, references = None\<rparr>,
        \<lparr>column_name = ''user_id'', column_type = Integer, nullable = False,
         is_primary_key = False, references = Some (''user_account'', ''id'')\<rparr>]\<rparr>"
  by (simp add: table_of_def Address_def column_of_def
      sql_type_of_def nullable_of_def split_colspec_user_account_id)

text \<open>
  Claim C9. The schema declares exactly two tables, in this shape: table
  \<^verbatim>\<open>user_account\<close> with the columns \<^verbatim>\<open>id\<close> (integer, primary key), \<^verbatim>\<open>name\<close> (string of
  at most 30, not null), \<^verbatim>\<open>fullname\<close> and \<^verbatim>\<open>nickname\<close> (string of at most 30,
  nullable); and table \<^verbatim>\<open>address\<close> with the columns \<^verbatim>\<open>id\<close> (integer, primary key),
  \<^verbatim>\<open>email_address\<close> and \<^verbatim>\<open>neighborhood\<close> (string of at most 30, not null) and
  \<^verbatim>\<open>user_id\<close> (integer, not null, foreign key to \<^verbatim>\<open>user_account.id\<close>). The tables
  read off the three classes of the module are these two and no other, and each has
  these columns and no other.
\<close>

theorem schema_shape:
  "metadata_tables models =
     [\<lparr>table_name = ''user_account'', columns = [
         \<lparr>column_name = ''id'', column_type = Integer, nullable = False,
          is_primary_key = True, references = None\<rparr>,
         \<lparr>column_name = ''name'', column_type = String (Some 30), nullable = False,
          is_primary_key = False, references = None\<rparr>,
         \<lparr>column_name = ''fullname'', column_type = String (Some 30), nullable = True,
          is_primary_key = False, references = None\<rparr>,
         \<lparr>column_name = ''nickname'', column_type = String (Some 30), nullable = True,
          is_primary_key = False, references = None\<rparr>]\<rparr>,
      \<lparr>table_name = ''address'', columns = [
         \<lparr>column_name = ''id'', column_type = Integer, nullable = False,
          is_primary_key = True, references = None\<rparr>,
         \<lparr>column_name = ''email_address'', column_type = String (Some 30),
          nullable = False, is_primary_key = False, references = None\<rparr>,
         \<lparr>column_name = ''neighborhood'', column_type = String (Some 30),
          nullable = False, is_primary_key = False, references = None\<rparr>,
         \<lparr>column_name = ''user_id'', column_type = Integer, nullable = False,
          is_primary_key = False, references = Some (''user_account'', ''id'')\<rparr>]\<rparr>]"
  by (simp add: metadata_tables_def models_def
      table_of_Base table_of_User table_of_Address)

section \<open>What the relationship pair declares\<close>

text \<open>
  The foreign key of \<^verbatim>\<open>address.user_id\<close> names a column that exists: the primary key
  \<^verbatim>\<open>id\<close> of \<^verbatim>\<open>user_account\<close>, an integer like \<^verbatim>\<open>user_id\<close> itself.
\<close>

lemma user_id_references_primary_key:
  "Option.bind (map_option columns (table_of User)) (find (\<lambda>c. column_name c = ''id'')) =
     Some \<lparr>column_name = ''id'', column_type = Integer, nullable = False,
           is_primary_key = True, references = None\<rparr>"
  by (simp add: table_of_User)

text \<open>
  The two relationship attributes name each other, and they are the only
  relationship attributes of the module.
\<close>

lemma relationships_of_models:
  "map (\<lambda>c. (class_name c,
         map attr_name (filter (\<lambda>a. relationship_of a \<noteq> None) (attributes c)))) models =
     [(''Base'', []), (''User'', [''addresses'']), (''Address'', [''user''])]"
  by (simp add: models_def Base_def User_def Address_def)

lemma addresses_back_populates_user:
  "map_option (back_populates_each_other models User) (find_attribute User ''addresses'')
     = Some True"
  by (simp add: back_populates_each_other_def find_attribute_def find_class_def
      models_def Base_def User_def Address_def)

lemma user_back_populates_addresses:
  "map_option (back_populates_each_other models Address) (find_attribute Address ''user'')
     = Some True"
  by (simp add: back_populates_each_other_def find_attribute_def find_class_def
      models_def Base_def User_def Address_def)

text \<open>
  \<^verbatim>\<open>User.addresses\<close> is declared with the cascades of \<^verbatim>\<open>all\<close> and with
  \<^verbatim>\<open>delete-orphan\<close>; \<^verbatim>\<open>Address.user\<close> is declared with no cascade of its own.
\<close>

lemma cascade_names_addresses:
  "cascade_names ''all, delete-orphan'' = [''all'', ''delete-orphan'']"
  by (simp add: cascade_names_def strip_def)

lemma cascade_of_addresses:
  "map_option (\<lambda>a. map_option (\<lambda>r. cascade_options (cascade r)) (relationship_of a))
     (find_attribute User ''addresses'') =
   Some (Some {''save-update'', ''merge'', ''refresh-expire'', ''expunge'', ''delete'',
               ''delete-orphan''})"
  by (auto simp add: find_attribute_def User_def cascade_options_def
      cascade_names_addresses all_cascades_def)

lemma cascade_of_user:
  "map_option (\<lambda>a. map_option (\<lambda>r. cascade_options (cascade r)) (relationship_of a))
     (find_attribute Address ''user'') =
   Some (Some {''save-update'', ''merge''})"
  by (simp add: find_attribute_def Address_def cascade_options_def)

end
